theory Spec2Isabelle
  imports Main "HOL-Library.Word"
begin

section \<open>Backoff policy: \<open>getWaitTime\<close>\<close>

text \<open>
  \<open>time.Duration\<close> is an \<open>int64\<close> count of nanoseconds; Go's \<open>int\<close> is 64 bits wide on
  the platforms the tool is built for. Both are modelled as \<open>64 word\<close>, read with
  \<open>sint\<close>; \<open>*\<close> wraps around as Go's does, and comparisons are the signed ones.
\<close>

type_synonym int64 = "64 word"

definition Second :: int64 where
  "Second = 1000000000"

definition Minute :: int64 where
  "Minute = 60 * Second"

definition minWebsocketReconnectDuration :: int64 where
  "minWebsocketReconnectDuration = 3 * Second"

definition maxWebsocketReconnectDuration :: int64 where
  "maxWebsocketReconnectDuration = 5 * Minute"

definition maxWebsocketFails :: int64 where
  "maxWebsocketFails = 7"

definition getWaitTime :: "int64 \<Rightarrow> int64" where
  "getWaitTime failCount =
     (let waitTime = minWebsocketReconnectDuration in
      if maxWebsocketFails <s failCount then
        (let waitTime = waitTime * (failCount * failCount) in
         if maxWebsocketReconnectDuration <s waitTime
         then maxWebsocketReconnectDuration else waitTime)
      else waitTime)"

text \<open>
  The policy in the words of the specification, over the mathematical integers: the base
  wait up to the threshold, beyond it \<open>base * failCount\<^sup>2\<close> clamped to the maximum.
\<close>

definition backoff_spec :: "int \<Rightarrow> int" where
  "backoff_spec f = (if f \<le> 7 then 3000000000 else min (3000000000 * f * f) 300000000000)"

section \<open>Data model\<close>

subsection \<open>Errors\<close>

text \<open>
  Go's \<open>error\<close> values. The three sentinels are compared by identity in the source
  (\<open>err == errSeqMismatch\<close>, \<open>errors.Is\<close>), so each is a constructor of its own.
  \<open>ErrNew\<close> is a fresh \<open>errors.New\<close>/\<open>fmt.Errorf\<close> value without \<open>%w\<close>, \<open>ErrWrap\<close> a
  \<open>fmt.Errorf\<close> with \<open>%w\<close> around the wrapped error.
\<close>

datatype error =
    errSeqMismatch
  | ErrChannelNotFound
  | ErrPostNotFound
  | ErrNew string
  | ErrWrap string error

text \<open>\<open>errors.Is\<close>: identity with the target somewhere along the \<open>Unwrap\<close> chain.\<close>

fun errors_Is :: "error \<Rightarrow> error \<Rightarrow> bool" where
  "errors_Is (ErrWrap msg e) target = (ErrWrap msg e = target \<or> errors_Is e target)"
| "errors_Is e target = (e = target)"

text \<open>The same on a possibly nil error: \<open>errors.Is(nil, target)\<close> is false.\<close>

fun errors_Is_opt :: "error option \<Rightarrow> error \<Rightarrow> bool" where
  "errors_Is_opt None target = False"
| "errors_Is_opt (Some e) target = errors_Is e target"

subsection \<open>Events and chat entities\<close>

text \<open>
  The values of \<open>ev.GetData()\<close> are \<open>interface{}\<close>: either a string or a value of
  another dynamic type, of which only the type name (what \<open>%T\<close> prints) is kept.
\<close>

datatype dyn = DString string | DOther string

record WebSocketEvent =
  EventType :: string
  Sequence :: int64
  Data :: "string \<rightharpoonup> dyn"

definition WebsocketEventHello :: string where
  "WebsocketEventHello = ''hello''"

definition WebsocketEventPosted :: string where
  "WebsocketEventPosted = ''posted''"

definition WebsocketEventPostEdited :: string where
  "WebsocketEventPostEdited = ''post_edited''"

definition WebsocketEventPostDeleted :: string where
  "WebsocketEventPostDeleted = ''post_deleted''"

definition WebsocketEventReactionAdded :: string where
  "WebsocketEventReactionAdded = ''reaction_added''"

definition WebsocketEventReactionRemoved :: string where
  "WebsocketEventReactionRemoved = ''reaction_removed''"

record Channel =
  channel_Id :: string

record Post =
  post_Id :: string
  post_ChannelId :: string
  post_Message :: string

record Reaction =
  reaction_UserId :: string
  reaction_PostId :: string
  reaction_EmojiName :: string

record userTypingMsg =
  channelId :: string
  parentId :: string

subsection \<open>Collaborators\<close>

text \<open>
  The store is an interface implemented outside this package, so its methods are
  parameters of the model, over an abstract store state \<open>'s\<close>. A Go result
  \<open>(*T, error)\<close> is a pair of options: the pointer may be nil whatever the error is.
\<close>

record 's Store =
  CurrentChannel :: "'s \<Rightarrow> Channel option \<times> error option"
  Post :: "'s \<Rightarrow> string \<Rightarrow> Post option \<times> error option"
  SetPost :: "'s \<Rightarrow> Post \<Rightarrow> error option \<times> 's"
  DeletePost :: "'s \<Rightarrow> string \<Rightarrow> error option \<times> 's"
  SetReaction :: "'s \<Rightarrow> Reaction \<Rightarrow> error option \<times> 's"
  DeleteReaction :: "'s \<Rightarrow> Reaction \<Rightarrow> (bool \<times> error option) \<times> 's"

text \<open>
  \<open>json.Unmarshal\<close> into a \<open>*model.Reaction\<close> or \<open>*model.Post\<close>: an error, or the decoded
  pointer, which is nil for the JSON text \<open>null\<close>.
\<close>

record Json =
  UnmarshalReaction :: "string \<Rightarrow> error + Reaction option"
  UnmarshalPost :: "string \<Rightarrow> error + Post option"

text \<open>The calls a handler makes on the store, in order.\<close>

datatype store_call =
    CallCurrentChannel
  | CallPost string
  | CallSetPost Post
  | CallDeletePost string
  | CallSetReaction Reaction
  | CallDeleteReaction Reaction

fun is_mutation :: "store_call \<Rightarrow> bool" where
  "is_mutation CallCurrentChannel = False"
| "is_mutation (CallPost i) = False"
| "is_mutation c = True"

text \<open>A handler returns its \<open>error\<close> (nil is \<open>None\<close>) or panics on a nil dereference.\<close>

datatype outcome = Return "error option" | Panic

subsection \<open>The user entity\<close>

text \<open>
  The fields of \<open>UserEntity\<close> this file reads and writes. The channel \<open>wsTyping\<close> is
  the list of messages handed to it and not yet received.
\<close>

record 's UserEntity =
  store :: 's
  wsConnID :: string
  wsServerSeq :: int64
  connected :: bool
  wsTyping :: "userTypingMsg list"

section \<open>Event dispatch\<close>

text \<open>
  The test \<open>err != nil && !errors.Is(err, target)\<close>, giving the error that passes it.
\<close>

fun otherThan :: "error \<Rightarrow> error option \<Rightarrow> error option" where
  "otherThan target None = None"
| "otherThan target (Some e) = (if errors_Is e target then None else Some e)"

text \<open>
  \<open>handleReactionEvent\<close>. The decoded \<open>reaction\<close> is dereferenced first at
  \<open>reaction.PostId\<close>, and \<open>post\<close> at \<open>post.ChannelId\<close>, the right operand of a
  short-circuit \<open>||\<close>: a nil pointer there panics.
\<close>

definition handleReactionEvent ::
  "'s Store \<Rightarrow> Json \<Rightarrow> WebSocketEvent \<Rightarrow> 's UserEntity
     \<Rightarrow> outcome \<times> store_call list \<times> 's UserEntity" where
  "handleReactionEvent S J ev ue =
    (case Data ev ''reaction'' of
       None \<Rightarrow> (Return (Some (ErrNew ''reaction data is missing'')), [], ue)
     | Some (DOther T) \<Rightarrow>
         (Return (Some (ErrNew (''type of the reaction data should be a string, but it is '' @ T))),
          [], ue)
     | Some (DString data) \<Rightarrow>
        (case UnmarshalReaction J data of
           Inl err \<Rightarrow> (Return (Some err), [], ue)
         | Inr reaction \<Rightarrow>
            (case CurrentChannel S (store ue) of (currentChannel, err) \<Rightarrow>
              (case otherThan ErrChannelNotFound err of
                 Some e \<Rightarrow>
                   (Return (Some (ErrWrap ''failed to get current channel from store'' e)),
                    [CallCurrentChannel], ue)
               | None \<Rightarrow>
                  (case currentChannel of
                     None \<Rightarrow> (Return None, [CallCurrentChannel], ue)
                   | Some ch \<Rightarrow>
                      (case reaction of
                         None \<Rightarrow> (Panic, [CallCurrentChannel], ue)
                       | Some r \<Rightarrow>
                          (let calls = [CallCurrentChannel, CallPost (reaction_PostId r)] in
                           case Post S (store ue) (reaction_PostId r) of (post, err) \<Rightarrow>
                             if errors_Is_opt err ErrPostNotFound then (Return None, calls, ue)
                             else
                              (case post of
                                 None \<Rightarrow> (Panic, calls, ue)
                               | Some p \<Rightarrow>
                                  if post_ChannelId p \<noteq> channel_Id ch
                                  then (Return None, calls, ue)
                                  else
                                   (case err of
                                      Some e \<Rightarrow>
                                        (Return (Some (ErrWrap ''failed to get post from store'' e)),
                                         calls, ue)
                                    | None \<Rightarrow>
                                       if EventType ev = WebsocketEventReactionAdded then
                                         (case SetReaction S (store ue) r of (err, s') \<Rightarrow>
                                            (Return err, calls @ [CallSetReaction r],
                                             ue\<lparr>store := s'\<rparr>))
                                       else if EventType ev = WebsocketEventReactionRemoved then
                                         (case DeleteReaction S (store ue) r of ((ok, err), s') \<Rightarrow>
                                            ((case err of
                                                Some e \<Rightarrow> Return (Some e)
                                              | None \<Rightarrow>
                                                 if \<not> ok
                                                 then Return (Some (ErrNew
                                                        ''could not find reaction in the store''))
                                                 else Return None),
                                             calls @ [CallDeleteReaction r], ue\<lparr>store := s'\<rparr>))
                                       else (Return None, calls, ue))))))))))"

text \<open>
  \<open>handlePostEvent\<close>. With a nil error, \<open>currentChannel.Id == post.ChannelId\<close>
  dereferences both pointers; \<open>post.Id\<close> dereferences the decoded post.
\<close>

definition handlePostEvent ::
  "'s Store \<Rightarrow> Json \<Rightarrow> WebSocketEvent \<Rightarrow> 's UserEntity
     \<Rightarrow> outcome \<times> store_call list \<times> 's UserEntity" where
  "handlePostEvent S J ev ue =
    (case Data ev ''post'' of
       None \<Rightarrow> (Return (Some (ErrNew ''post data is missing'')), [], ue)
     | Some (DOther T) \<Rightarrow>
         (Return (Some (ErrNew (''type of the post data should be a string, but it is '' @ T))),
          [], ue)
     | Some (DString data) \<Rightarrow>
        (case UnmarshalPost J data of
           Inl err \<Rightarrow> (Return (Some err), [], ue)
         | Inr post \<Rightarrow>
            if EventType ev = WebsocketEventPosted \<or> EventType ev = WebsocketEventPostEdited then
              (case CurrentChannel S (store ue) of (currentChannel, err) \<Rightarrow>
                 (case err of
                    None \<Rightarrow>
                     (case currentChannel of
                        None \<Rightarrow> (Panic, [CallCurrentChannel], ue)
                      | Some ch \<Rightarrow>
                         (case post of
                            None \<Rightarrow> (Panic, [CallCurrentChannel], ue)
                          | Some p \<Rightarrow>
                             if channel_Id ch = post_ChannelId p then
                               (case SetPost S (store ue) p of (err, s') \<Rightarrow>
                                  (Return err, [CallCurrentChannel, CallSetPost p],
                                   ue\<lparr>store := s'\<rparr>))
                             else (Return None, [CallCurrentChannel], ue)))
                  | Some e \<Rightarrow>
                     if \<not> errors_Is e ErrChannelNotFound
                     then (Return (Some (ErrWrap ''failed to get current channel from store'' e)),
                           [CallCurrentChannel], ue)
                     else (Return None, [CallCurrentChannel], ue)))
            else if EventType ev = WebsocketEventPostDeleted then
              (case post of
                 None \<Rightarrow> (Panic, [], ue)
               | Some p \<Rightarrow>
                  (case DeletePost S (store ue) (post_Id p) of (err, s') \<Rightarrow>
                     (Return err, [CallDeletePost (post_Id p)], ue\<lparr>store := s'\<rparr>)))
            else (Return None, [], ue)))"

section \<open>Sequence tracking: \<open>wsEventHandler\<close>\<close>

text \<open>
  The first statement of \<open>wsEventHandler\<close>: on a hello event whose \<open>connection_id\<close> is a
  string, reset the sequence number when a different identifier was recorded, and record
  the new one.
\<close>

definition wsEventHandler_hello :: "WebSocketEvent \<Rightarrow> 's UserEntity \<Rightarrow> 's UserEntity" where
  "wsEventHandler_hello ev ue =
    (if EventType ev = WebsocketEventHello then
       (case Data ev ''connection_id'' of
          Some (DString connID) \<Rightarrow>
            (let ue = (if wsConnID ue \<noteq> [] \<and> wsConnID ue \<noteq> connID
                       then ue\<lparr>wsServerSeq := 0\<rparr> else ue)
             in ue\<lparr>wsConnID := connID\<rparr>)
        | _ \<Rightarrow> ue)
     else ue)"

definition wsEventHandler ::
  "'s Store \<Rightarrow> Json \<Rightarrow> WebSocketEvent \<Rightarrow> 's UserEntity
     \<Rightarrow> outcome \<times> store_call list \<times> 's UserEntity" where
  "wsEventHandler S J ev ue =
    (let ue = wsEventHandler_hello ev ue in
     if Sequence ev \<noteq> wsServerSeq ue then (Return (Some errSeqMismatch), [], ue)
     else
      (let ue = ue\<lparr>wsServerSeq := Sequence ev + 1\<rparr> in
       if EventType ev = WebsocketEventReactionAdded
          \<or> EventType ev = WebsocketEventReactionRemoved
       then handleReactionEvent S J ev ue
       else if EventType ev = WebsocketEventPosted \<or> EventType ev = WebsocketEventPostEdited
               \<or> EventType ev = WebsocketEventPostDeleted
       then handlePostEvent S J ev ue
       else (Return None, [], ue)))"

section \<open>The session loop: \<open>listen\<close>\<close>

text \<open>
  \<open>listen\<close> is a loop around blocking calls and \<open>select\<close>s. It is modelled as a step
  function between its blocking points: the stimulus is what the environment delivers
  there (the result of \<open>NewClient4\<close>, or the \<open>select\<close> case that fires), the output is
  the list of calls and channel operations the loop makes before it blocks again.
\<close>

datatype loc =
    Start      \<comment> \<open>top of the loop labelled \<open>start\<close>, calling \<open>NewClient4\<close>\<close>
  | Active     \<comment> \<open>the \<open>select\<close> of the inner loop, a client being open\<close>
  | Backoff    \<comment> \<open>either \<open>select\<close> that waits on \<open>time.After\<close>\<close>
  | Returned   \<comment> \<open>\<open>listen\<close> has returned\<close>
  | Crashed    \<comment> \<open>a handler panicked\<close>

datatype stimulus =
    NewClient4_ok
  | NewClient4_err error
  | RecvEvent WebSocketEvent   \<comment> \<open>\<open>ev, ok := <-client.EventChannel\<close> with \<open>ok\<close>\<close>
  | EventChannelClosed         \<comment> \<open>the same with \<open>!ok\<close>\<close>
  | RecvClosing                \<comment> \<open>\<open><-ue.wsClosing\<close>\<close>
  | RecvTyping "error option"  \<comment> \<open>\<open><-ue.wsTyping\<close> delivers the oldest message; the value
                                    is what \<open>client.UserTyping\<close> returns if it is called\<close>
  | TypingClosed               \<comment> \<open>\<open><-ue.wsTyping\<close> on the closed channel\<close>
  | TimerFired                 \<comment> \<open>\<open><-time.After(...)\<close>\<close>

datatype action =
    CallNewClient4 string int64        \<comment> \<open>with \<open>ConnID\<close> and \<open>ServerSequence\<close>\<close>
  | ErrChanSend error                  \<comment> \<open>\<open>errChan <- err\<close>\<close>
  | IncWebSocketConnections
  | DecWebSocketConnections
  | ClientClose
  | ClientUserTyping string string
  | WsEventChanSend WebSocketEvent     \<comment> \<open>\<open>ue.wsEventChan <- ev\<close>\<close>
  | CloseWsClosed                      \<comment> \<open>\<open>close(ue.wsClosed)\<close>\<close>
  | TimeAfter int64                    \<comment> \<open>\<open>time.After(d)\<close> is armed\<close>
  | StoreCall store_call

record 's listen_state =
  entity :: "'s UserEntity"
  connectionFailCount :: int64
  pc :: loc

text \<open>
  The tail of the outer loop, also reached through \<open>chanClosed\<close>: count the failure and
  wait.
\<close>

definition reconnect :: "action list \<Rightarrow> 's listen_state \<Rightarrow> action list \<times> 's listen_state" where
  "reconnect acts st =
    (let n = connectionFailCount st + 1
     in (acts @ [TimeAfter (getWaitTime n)], st\<lparr>connectionFailCount := n, pc := Backoff\<rparr>))"

definition listen_step ::
  "'s Store \<Rightarrow> Json \<Rightarrow> stimulus \<Rightarrow> 's listen_state
     \<Rightarrow> (action list \<times> 's listen_state) option" where
  "listen_step S J stim st =
    (case pc st of
       Start \<Rightarrow>
        (let call = CallNewClient4 (wsConnID (entity st)) (wsServerSeq (entity st)) in
         case stim of
           NewClient4_err err \<Rightarrow>
             Some (reconnect
               [call, ErrChanSend (ErrWrap ''userentity: websocketClient creation error'' err)] st)
         | NewClient4_ok \<Rightarrow> Some ([call, IncWebSocketConnections], st\<lparr>pc := Active\<rparr>)
         | _ \<Rightarrow> None)
     | Active \<Rightarrow>
        (case stim of
           RecvEvent ev \<Rightarrow>
            (case wsEventHandler S J ev (entity st) of (res, calls, ue') \<Rightarrow>
              (case res of
                 Panic \<Rightarrow> Some (map StoreCall calls, st\<lparr>entity := ue', pc := Crashed\<rparr>)
               | Return (Some err) \<Rightarrow>
                  if err = errSeqMismatch
                  then Some (map StoreCall calls @ [ClientClose, DecWebSocketConnections],
                             st\<lparr>entity := ue', pc := Start\<rparr>)
                  else Some (map StoreCall calls
                               @ [ErrChanSend (ErrWrap ''userentity: error in wsEventHandler'' err),
                                  WsEventChanSend ev],
                             st\<lparr>entity := ue'\<rparr>)
               | Return None \<Rightarrow>
                  Some (map StoreCall calls @ [WsEventChanSend ev], st\<lparr>entity := ue'\<rparr>)))
         | EventChannelClosed \<Rightarrow> Some (reconnect [ClientClose, DecWebSocketConnections] st)
         | RecvClosing \<Rightarrow>
             Some ([ClientClose, DecWebSocketConnections, CloseWsClosed], st\<lparr>pc := Returned\<rparr>)
         | RecvTyping res \<Rightarrow>
            (case wsTyping (entity st) of
               [] \<Rightarrow> None
             | msg # rest \<Rightarrow>
                Some (ClientUserTyping (channelId msg) (parentId msg)
                        # (case res of
                             Some err \<Rightarrow>
                               [ErrChanSend (ErrWrap ''userentity: error in client.UserTyping'' err)]
                           | None \<Rightarrow> []),
                      st\<lparr>entity := (entity st)\<lparr>wsTyping := rest\<rparr>\<rparr>))
         | TypingClosed \<Rightarrow> Some (reconnect [ClientClose, DecWebSocketConnections] st)
         | _ \<Rightarrow> None)
     | Backoff \<Rightarrow>
        (case stim of
           RecvTyping res \<Rightarrow>
            (case wsTyping (entity st) of
               [] \<Rightarrow> None
             | msg # rest \<Rightarrow> Some ([], st\<lparr>entity := (entity st)\<lparr>wsTyping := rest\<rparr>, pc := Start\<rparr>))
         | TypingClosed \<Rightarrow> Some ([], st\<lparr>pc := Start\<rparr>)
         | RecvClosing \<Rightarrow> Some ([CloseWsClosed], st\<lparr>pc := Returned\<rparr>)
         | TimerFired \<Rightarrow> Some ([], st\<lparr>pc := Start\<rparr>)
         | _ \<Rightarrow> None)
     | Returned \<Rightarrow> None
     | Crashed \<Rightarrow> None)"

section \<open>The facade: \<open>SendTypingEvent\<close>\<close>



section \<open>Concrete collaborators for the examples\<close>

text \<open>
  A store that answers its lookups with fixed values and whose state is the list of the
  mutations it has received, a decoder that reads the text as the identifier the entity
  belongs to (\<open>null\<close> decoding to the nil pointer), and a connected user entity with an
  empty store. They instantiate the parameters of the model in the examples below.
\<close>

definition exampleStore ::
  "Channel option \<times> error option \<Rightarrow> Post option \<times> error option \<Rightarrow> bool \<times> error option
     \<Rightarrow> store_call list Store" where
  "exampleStore cur pst del =
    \<lparr>CurrentChannel = (\<lambda>s. cur),
     Post = (\<lambda>s i. pst),
     SetPost = (\<lambda>s p. (None, s @ [CallSetPost p])),
     DeletePost = (\<lambda>s i. (None, s @ [CallDeletePost i])),
     SetReaction = (\<lambda>s r. (None, s @ [CallSetReaction r])),
     DeleteReaction = (\<lambda>s r. (del, s @ [CallDeleteReaction r]))\<rparr>"

definition exampleJson :: Json where
  "exampleJson =
    \<lparr>UnmarshalReaction = (\<lambda>d. if d = ''null'' then Inr None
        else Inr (Some \<lparr>reaction_UserId = ''u1'', reaction_PostId = d,
                          reaction_EmojiName = ''smile''\<rparr>)),
     UnmarshalPost = (\<lambda>d. if d = ''null'' then Inr None
        else Inr (Some \<lparr>post_Id = ''p1'', post_ChannelId = d, post_Message = ''hi''\<rparr>))\<rparr>"

definition exampleEntity :: "string \<Rightarrow> int64 \<Rightarrow> store_call list UserEntity" where
  "exampleEntity cid n =
    \<lparr>store = [], wsConnID = cid, wsServerSeq = n, connected = True, wsTyping = []\<rparr>"

definition exampleEvent :: "string \<Rightarrow> int64 \<Rightarrow> string \<Rightarrow> string \<Rightarrow> WebSocketEvent" where
  "exampleEvent t n k v = \<lparr>EventType = t, Sequence = n, Data = [k \<mapsto> DString v]\<rparr>"

text \<open>A store with no active channel, no post and no reaction.\<close>

definition emptyStore :: "store_call list Store" where
  "emptyStore = exampleStore (None, Some ErrChannelNotFound) (None, Some ErrPostNotFound) (False, None)"

section \<open>Properties of the backoff policy\<close>

lemmas getWaitTime_consts =
  minWebsocketReconnectDuration_def maxWebsocketReconnectDuration_def
  maxWebsocketFails_def Second_def Minute_def

lemma sint_word_of_int_int64:
  "- (2 ^ 63) \<le> k \<Longrightarrow> k < 2 ^ 63 \<Longrightarrow> sint (word_of_int k :: int64) = k"
  by (simp add: sint_sbintrunc' signed_take_bit_int_eq_self)

lemma sint_square_scaled:
  fixes f :: int64
  assumes lo: "0 \<le> sint f" and hi: "sint f \<le> 55447"
  shows "sint (3000000000 * (f * f)) = 3000000000 * (sint f * sint f)"
proof -
  define i where "i = sint f"
  have f: "f = word_of_int i" by (simp add: i_def)
  have sq: "i * i \<le> 55447 * 55447"
    using lo hi unfolding i_def by (intro mult_mono) simp_all
  have "- (2 ^ 63) \<le> (0::int)" by simp
  also have "0 \<le> 3000000000 * (i * i)" by simp
  finally have "- (2 ^ 63) \<le> 3000000000 * (i * i)" .
  moreover have "3000000000 * (i * i) < 2 ^ 63"
    using sq by simp
  ultimately have "sint (word_of_int (3000000000 * (i * i)) :: int64) = 3000000000 * (i * i)"
    by (rule sint_word_of_int_int64)
  moreover have "(word_of_int (3000000000 * (i * i)) :: int64) = 3000000000 * (f * f)"
    unfolding f by simp
  ultimately show ?thesis by (simp add: i_def)
qed

lemma getWaitTime_below_threshold:
  "sint f \<le> 7 \<Longrightarrow> getWaitTime f = minWebsocketReconnectDuration"
  by (simp add: getWaitTime_def maxWebsocketFails_def word_sless_alt)

lemma getWaitTime_refines_backoff_spec:
  assumes "sint f \<le> 55447"
  shows "sint (getWaitTime f) = backoff_spec (sint f)"
proof (cases "sint f \<le> 7")
  case True
  then show ?thesis
    by (simp add: getWaitTime_below_threshold backoff_spec_def getWaitTime_consts)
next
  case False
  then have lo: "0 \<le> sint f" by simp
  have prod: "sint (3000000000 * (f * f)) = 3000000000 * (sint f * sint f)"
    using lo assms by (rule sint_square_scaled)
  show ?thesis
    using False prod
    by (simp add: getWaitTime_def backoff_spec_def getWaitTime_consts word_sless_alt
        Let_def min_def mult.assoc)
qed

lemma backoff_spec_bounds: "3000000000 \<le> backoff_spec f \<and> backoff_spec f \<le> 300000000000"
proof (cases "f \<le> 7")
  case True
  then show ?thesis by (simp add: backoff_spec_def)
next
  case False
  then have "7 * 7 \<le> f * f" by (intro mult_mono) simp_all
  then show ?thesis using False by (simp add: backoff_spec_def min_def mult.assoc)
qed

text \<open>
  Up to 55447 failures the product \<open>3 s * failCount\<^sup>2\<close> fits in an \<open>int64\<close>, and there
  the source computes the specified policy within its bounds.
\<close>

lemma getWaitTime_bounds_in_range:
  assumes "sint f \<le> 55447"
  shows "sint minWebsocketReconnectDuration \<le> sint (getWaitTime f)
         \<and> sint (getWaitTime f) \<le> sint maxWebsocketReconnectDuration"
  using backoff_spec_bounds [of "sint f"] getWaitTime_refines_backoff_spec [OF assms]
  by (simp add: getWaitTime_consts)

text \<open>
  Claim C5 (bounds of the backoff wait): for every failure count \<open>f \<ge> 0\<close> the wait is
  between the minimum and the maximum, never zero or negative, and non-decreasing in
  \<open>f\<close> beyond the threshold. The source multiplies in \<open>int64\<close> before it clamps: at
  \<open>failCount = 60000\<close> the product \<open>3 s * 60000\<^sup>2\<close> wraps around to a negative
  duration, which passes the clamp; the wait is below zero, below the minimum, and below
  the wait for 8 failures.
\<close>

theorem getWaitTime_negative_at_60000:
  "getWaitTime 60000 <s 0 \<and> getWaitTime 60000 <s minWebsocketReconnectDuration
   \<and> getWaitTime 60000 <s getWaitTime 8"
  by (simp add: getWaitTime_def getWaitTime_consts word_sless_alt)

text \<open>
  Claim C6 (the backoff function): the base wait of 3 seconds up to the threshold 7,
  beyond it \<open>base * f\<^sup>2\<close> clamped to 5 minutes. At \<open>failCount = 60000\<close> the specified
  value is the maximum of 5 minutes; the source returns the wrapped product.
\<close>

theorem getWaitTime_differs_from_spec_at_60000:
  "sint (getWaitTime 60000) = - 7646744073709551616
   \<and> backoff_spec (sint (60000 :: int64)) = 300000000000"
  by (simp add: getWaitTime_def backoff_spec_def getWaitTime_consts word_sless_alt)

section \<open>Properties of the sequence tracker\<close>

lemmas event_types =
  WebsocketEventHello_def WebsocketEventPosted_def WebsocketEventPostEdited_def
  WebsocketEventPostDeleted_def WebsocketEventReactionAdded_def
  WebsocketEventReactionRemoved_def

lemma handleReactionEvent_entity:
  "handleReactionEvent S J ev ue = (res, calls, ue') \<Longrightarrow> ue' = ue\<lparr>store := store ue'\<rparr>"
  unfolding handleReactionEvent_def
  by (auto simp: Let_def split: option.splits dyn.splits sum.splits prod.splits if_splits)

lemma handlePostEvent_entity:
  "handlePostEvent S J ev ue = (res, calls, ue') \<Longrightarrow> ue' = ue\<lparr>store := store ue'\<rparr>"
  unfolding handlePostEvent_def
  by (auto simp: Let_def split: option.splits dyn.splits sum.splits prod.splits if_splits)

lemma wsEventHandler_reject:
  "Sequence ev \<noteq> wsServerSeq (wsEventHandler_hello ev ue) \<Longrightarrow>
   wsEventHandler S J ev ue = (Return (Some errSeqMismatch), [], wsEventHandler_hello ev ue)"
  by (simp add: wsEventHandler_def Let_def)

lemma handleReactionEvent_entity':
  "snd (snd (handleReactionEvent S J ev u)) =
     u\<lparr>store := store (snd (snd (handleReactionEvent S J ev u)))\<rparr>"
  by (rule handleReactionEvent_entity [of S J ev u "fst (handleReactionEvent S J ev u)"
        "fst (snd (handleReactionEvent S J ev u))"]) simp

lemma handlePostEvent_entity':
  "snd (snd (handlePostEvent S J ev u)) =
     u\<lparr>store := store (snd (snd (handlePostEvent S J ev u)))\<rparr>"
  by (rule handlePostEvent_entity [of S J ev u "fst (handlePostEvent S J ev u)"
        "fst (snd (handlePostEvent S J ev u))"]) simp

lemma wsEventHandler_accept:
  assumes "Sequence ev = wsServerSeq (wsEventHandler_hello ev ue)"
  shows "snd (snd (wsEventHandler S J ev ue)) =
           (wsEventHandler_hello ev ue)
             \<lparr>wsServerSeq := Sequence ev + 1,
              store := store (snd (snd (wsEventHandler S J ev ue)))\<rparr>"
proof -
  let ?ue = "(wsEventHandler_hello ev ue)\<lparr>wsServerSeq := Sequence ev + 1\<rparr>"
  let ?reaction = "EventType ev = WebsocketEventReactionAdded
                   \<or> EventType ev = WebsocketEventReactionRemoved"
  let ?post = "EventType ev = WebsocketEventPosted \<or> EventType ev = WebsocketEventPostEdited
               \<or> EventType ev = WebsocketEventPostDeleted"
  show ?thesis
  proof (cases ?reaction)
    case True
    with assms have eq: "wsEventHandler S J ev ue = handleReactionEvent S J ev ?ue"
      unfolding wsEventHandler_def Let_def by simp
    show ?thesis unfolding eq by (rule handleReactionEvent_entity')
  next
    case False
    show ?thesis
    proof (cases ?post)
      case True
      with \<open>\<not> ?reaction\<close> assms
      have eq: "wsEventHandler S J ev ue = handlePostEvent S J ev ?ue"
        unfolding wsEventHandler_def Let_def by simp
      show ?thesis unfolding eq by (rule handlePostEvent_entity')
    next
      case False
      with \<open>\<not> ?reaction\<close> assms
      have "wsEventHandler S J ev ue = (Return None, [], ?ue)"
        unfolding wsEventHandler_def Let_def by simp
      then show ?thesis by simp
    qed
  qed
qed

lemma wsEventHandler_hello_other:
  "EventType ev \<noteq> WebsocketEventHello \<or> (\<forall>c. Data ev ''connection_id'' \<noteq> Some (DString c))
   \<Longrightarrow> wsEventHandler_hello ev ue = ue"
  by (auto simp: wsEventHandler_hello_def split: option.splits dyn.splits)

lemma handleReactionEvent_not_mismatch:
  assumes "\<forall>d. UnmarshalReaction J d \<noteq> Inl errSeqMismatch"
    and "\<forall>s r. fst (SetReaction S s r) \<noteq> Some errSeqMismatch"
    and "\<forall>s r. snd (fst (DeleteReaction S s r)) \<noteq> Some errSeqMismatch"
  shows "fst (handleReactionEvent S J ev u) \<noteq> Return (Some errSeqMismatch)"
proof -
  have set: "SetReaction S s r = (e, s') \<Longrightarrow> e \<noteq> Some errSeqMismatch" for s r e s'
    using assms(2) by (metis fst_conv)
  have del: "DeleteReaction S s r = ((ok, e), s') \<Longrightarrow> e \<noteq> Some errSeqMismatch" for s r ok e s'
    using assms(3) by (metis fst_conv snd_conv)
  show ?thesis
    unfolding handleReactionEvent_def
    using assms(1)
    by (auto simp: Let_def split: option.splits dyn.splits sum.splits prod.splits if_splits
        dest: set del)
qed

lemma handlePostEvent_not_mismatch:
  assumes "\<forall>d. UnmarshalPost J d \<noteq> Inl errSeqMismatch"
    and "\<forall>s p. fst (SetPost S s p) \<noteq> Some errSeqMismatch"
    and "\<forall>s i. fst (DeletePost S s i) \<noteq> Some errSeqMismatch"
  shows "fst (handlePostEvent S J ev u) \<noteq> Return (Some errSeqMismatch)"
proof -
  have set: "SetPost S s p = (e, s') \<Longrightarrow> e \<noteq> Some errSeqMismatch" for s p e s'
    using assms(2) by (metis fst_conv)
  have del: "DeletePost S s i = (e, s') \<Longrightarrow> e \<noteq> Some errSeqMismatch" for s i e s'
    using assms(3) by (metis fst_conv)
  show ?thesis
    unfolding handlePostEvent_def
    using assms(1)
    by (auto simp: Let_def split: option.splits dyn.splits sum.splits prod.splits if_splits
        dest: set del)
qed

lemma wsEventHandler_dispatch:
  assumes "Sequence ev = wsServerSeq (wsEventHandler_hello ev ue)"
  shows "wsEventHandler S J ev ue =
      (if EventType ev = WebsocketEventReactionAdded
          \<or> EventType ev = WebsocketEventReactionRemoved
       then handleReactionEvent S J ev
              ((wsEventHandler_hello ev ue)\<lparr>wsServerSeq := Sequence ev + 1\<rparr>)
       else if EventType ev = WebsocketEventPosted \<or> EventType ev = WebsocketEventPostEdited
               \<or> EventType ev = WebsocketEventPostDeleted
       then handlePostEvent S J ev
              ((wsEventHandler_hello ev ue)\<lparr>wsServerSeq := Sequence ev + 1\<rparr>)
       else (Return None, [], (wsEventHandler_hello ev ue)\<lparr>wsServerSeq := Sequence ev + 1\<rparr>))"
  using assms by (simp add: wsEventHandler_def Let_def)

lemma wsEventHandler_not_mismatch:
  assumes "Sequence ev = wsServerSeq (wsEventHandler_hello ev ue)"
    and "\<forall>d. UnmarshalReaction J d \<noteq> Inl errSeqMismatch"
    and "\<forall>d. UnmarshalPost J d \<noteq> Inl errSeqMismatch"
    and "\<forall>s p. fst (SetPost S s p) \<noteq> Some errSeqMismatch"
    and "\<forall>s i. fst (DeletePost S s i) \<noteq> Some errSeqMismatch"
    and "\<forall>s r. fst (SetReaction S s r) \<noteq> Some errSeqMismatch"
    and "\<forall>s r. snd (fst (DeleteReaction S s r)) \<noteq> Some errSeqMismatch"
  shows "fst (wsEventHandler S J ev ue) \<noteq> Return (Some errSeqMismatch)"
  unfolding wsEventHandler_dispatch [OF assms(1)]
  using handleReactionEvent_not_mismatch [OF assms(2,6,7)]
    handlePostEvent_not_mismatch [OF assms(3,4,5)]
  by simp

text \<open>
  Claim C2 (sequence acceptance), as the source has it. The handshake update of
  \<open>wsEventHandler_hello\<close> comes first, and the event's sequence number is compared with
  the tracker state after it. If they are equal the event is accepted: \<open>wsServerSeq\<close>
  becomes the sequence number plus one, the connection identifier stays as the handshake
  left it, and the handler's result is the result of dispatching the event on that state
  (nil for an event of no dispatched type); it is not \<open>errSeqMismatch\<close>, a value private
  to this package, as long as the decoder and the store do not return that value
  themselves. If they differ the handler returns \<open>errSeqMismatch\<close>, calls nothing on the
  store, and leaves the state as the handshake left it. For every event that is not a
  hello event with a string \<open>connection_id\<close> the handshake update is the identity, so the
  test is against the state the handler was called with and a rejection leaves that state
  unchanged.
\<close>

theorem wsEventHandler_sequence_test:
  "(Sequence ev = wsServerSeq (wsEventHandler_hello ev ue) \<longrightarrow>
      wsEventHandler S J ev ue =
        (if EventType ev = WebsocketEventReactionAdded
            \<or> EventType ev = WebsocketEventReactionRemoved
         then handleReactionEvent S J ev
                ((wsEventHandler_hello ev ue)\<lparr>wsServerSeq := Sequence ev + 1\<rparr>)
         else if EventType ev = WebsocketEventPosted \<or> EventType ev = WebsocketEventPostEdited
                 \<or> EventType ev = WebsocketEventPostDeleted
         then handlePostEvent S J ev
                ((wsEventHandler_hello ev ue)\<lparr>wsServerSeq := Sequence ev + 1\<rparr>)
         else (Return None, [],
               (wsEventHandler_hello ev ue)\<lparr>wsServerSeq := Sequence ev + 1\<rparr>))
      \<and> wsServerSeq (snd (snd (wsEventHandler S J ev ue))) = Sequence ev + 1
      \<and> wsConnID (snd (snd (wsEventHandler S J ev ue))) = wsConnID (wsEventHandler_hello ev ue)
      \<and> ((\<forall>d. UnmarshalReaction J d \<noteq> Inl errSeqMismatch)
           \<and> (\<forall>d. UnmarshalPost J d \<noteq> Inl errSeqMismatch)
           \<and> (\<forall>s p. fst (SetPost S s p) \<noteq> Some errSeqMismatch)
           \<and> (\<forall>s i. fst (DeletePost S s i) \<noteq> Some errSeqMismatch)
           \<and> (\<forall>s r. fst (SetReaction S s r) \<noteq> Some errSeqMismatch)
           \<and> (\<forall>s r. snd (fst (DeleteReaction S s r)) \<noteq> Some errSeqMismatch) \<longrightarrow>
          fst (wsEventHandler S J ev ue) \<noteq> Return (Some errSeqMismatch)))
   \<and> (Sequence ev \<noteq> wsServerSeq (wsEventHandler_hello ev ue) \<longrightarrow>
      wsEventHandler S J ev ue
        = (Return (Some errSeqMismatch), [], wsEventHandler_hello ev ue))
   \<and> (EventType ev \<noteq> WebsocketEventHello
        \<or> (\<forall>c. Data ev ''connection_id'' \<noteq> Some (DString c)) \<longrightarrow>
      wsEventHandler_hello ev ue = ue)"
proof -
  have accept: "wsEventHandler S J ev ue =
        (if EventType ev = WebsocketEventReactionAdded
            \<or> EventType ev = WebsocketEventReactionRemoved
         then handleReactionEvent S J ev
                ((wsEventHandler_hello ev ue)\<lparr>wsServerSeq := Sequence ev + 1\<rparr>)
         else if EventType ev = WebsocketEventPosted \<or> EventType ev = WebsocketEventPostEdited
                 \<or> EventType ev = WebsocketEventPostDeleted
         then handlePostEvent S J ev
                ((wsEventHandler_hello ev ue)\<lparr>wsServerSeq := Sequence ev + 1\<rparr>)
         else (Return None, [],
               (wsEventHandler_hello ev ue)\<lparr>wsServerSeq := Sequence ev + 1\<rparr>))
      \<and> wsServerSeq (snd (snd (wsEventHandler S J ev ue))) = Sequence ev + 1
      \<and> wsConnID (snd (snd (wsEventHandler S J ev ue))) = wsConnID (wsEventHandler_hello ev ue)"
    if acc: "Sequence ev = wsServerSeq (wsEventHandler_hello ev ue)"
  proof (intro conjI)
    show "wsServerSeq (snd (snd (wsEventHandler S J ev ue))) = Sequence ev + 1"
      by (subst wsEventHandler_accept [OF acc]) simp
    show "wsConnID (snd (snd (wsEventHandler S J ev ue))) = wsConnID (wsEventHandler_hello ev ue)"
      by (subst wsEventHandler_accept [OF acc]) simp
  qed (rule wsEventHandler_dispatch [OF acc])
  have not_mismatch: "fst (wsEventHandler S J ev ue) \<noteq> Return (Some errSeqMismatch)"
    if "Sequence ev = wsServerSeq (wsEventHandler_hello ev ue)"
      and "(\<forall>d. UnmarshalReaction J d \<noteq> Inl errSeqMismatch)
           \<and> (\<forall>d. UnmarshalPost J d \<noteq> Inl errSeqMismatch)
           \<and> (\<forall>s p. fst (SetPost S s p) \<noteq> Some errSeqMismatch)
           \<and> (\<forall>s i. fst (DeletePost S s i) \<noteq> Some errSeqMismatch)
           \<and> (\<forall>s r. fst (SetReaction S s r) \<noteq> Some errSeqMismatch)
           \<and> (\<forall>s r. snd (fst (DeleteReaction S s r)) \<noteq> Some errSeqMismatch)"
    using that by (intro wsEventHandler_not_mismatch) simp_all
  have reject: "wsEventHandler S J ev ue
        = (Return (Some errSeqMismatch), [], wsEventHandler_hello ev ue)"
    if "Sequence ev \<noteq> wsServerSeq (wsEventHandler_hello ev ue)"
    using that by (rule wsEventHandler_reject)
  have other: "wsEventHandler_hello ev ue = ue"
    if "EventType ev \<noteq> WebsocketEventHello
        \<or> (\<forall>c. Data ev ''connection_id'' \<noteq> Some (DString c))"
    using that by (rule wsEventHandler_hello_other)
  show ?thesis
    using accept not_mismatch reject other by (intro conjI impI) blast+
qed

theorem wsEventHandler_sequence_test_witness:
  "wsEventHandler emptyStore exampleJson
       (exampleEvent ''typing'' 5 ''channel_id'' ''c1'') (exampleEntity ''a'' 5)
       = (Return None, [], exampleEntity ''a'' 6)
   \<and> wsEventHandler (exampleStore (Some \<lparr>channel_Id = ''c1''\<rparr>, None) (None, None) (False, None))
       exampleJson (exampleEvent ''posted'' 5 ''post'' ''c1'') (exampleEntity ''a'' 5)
       = handlePostEvent (exampleStore (Some \<lparr>channel_Id = ''c1''\<rparr>, None) (None, None) (False, None))
           exampleJson (exampleEvent ''posted'' 5 ''post'' ''c1'') (exampleEntity ''a'' 6)
   \<and> fst (wsEventHandler (exampleStore (Some \<lparr>channel_Id = ''c1''\<rparr>, None) (None, None) (False, None))
       exampleJson (exampleEvent ''posted'' 5 ''post'' ''c1'') (exampleEntity ''a'' 5))
       \<noteq> Return (Some errSeqMismatch)
   \<and> wsEventHandler emptyStore exampleJson
       (exampleEvent ''typing'' 8 ''channel_id'' ''c1'') (exampleEntity ''a'' 6)
       = (Return (Some errSeqMismatch), [], exampleEntity ''a'' 6)"
proof -
  let ?S = "exampleStore (Some \<lparr>channel_Id = ''c1''\<rparr>, None) (None, None) (False, None)"
  let ?typing = "\<lambda>n. exampleEvent ''typing'' n ''channel_id'' ''c1''"
  let ?posted = "exampleEvent ''posted'' 5 ''post'' ''c1''"
  let ?ue = "\<lambda>n. exampleEntity ''a'' n :: store_call list UserEntity"
  have hello: "wsEventHandler_hello (?typing n) (?ue m) = ?ue m"
    "wsEventHandler_hello ?posted (?ue m) = ?ue m" for n m
    by (simp_all add: wsEventHandler_hello_def exampleEvent_def event_types)
  have advance: "(?ue 5)\<lparr>wsServerSeq := 6\<rparr> = ?ue 6"
    by (simp add: exampleEntity_def)
  have collaborators:
    "(\<forall>d. UnmarshalReaction exampleJson d \<noteq> Inl errSeqMismatch)
     \<and> (\<forall>d. UnmarshalPost exampleJson d \<noteq> Inl errSeqMismatch)
     \<and> (\<forall>s p. fst (SetPost ?S s p) \<noteq> Some errSeqMismatch)
     \<and> (\<forall>s i. fst (DeletePost ?S s i) \<noteq> Some errSeqMismatch)
     \<and> (\<forall>s r. fst (SetReaction ?S s r) \<noteq> Some errSeqMismatch)
     \<and> (\<forall>s r. snd (fst (DeleteReaction ?S s r)) \<noteq> Some errSeqMismatch)"
    by (simp add: exampleStore_def exampleJson_def)
  have seq: "Sequence (?typing n) = n" "Sequence ?posted = 5" "wsServerSeq (?ue m) = m" for n m
    by (simp_all add: exampleEvent_def exampleEntity_def)
  have types: "EventType (?typing n) = ''typing''" "EventType ?posted = ''posted''" for n
    by (simp_all add: exampleEvent_def)
  from wsEventHandler_sequence_test [of "?typing 5" "?ue 5" emptyStore exampleJson]
  have "wsEventHandler emptyStore exampleJson (?typing 5) (?ue 5) = (Return None, [], ?ue 6)"
    by (simp add: hello seq types advance event_types)
  moreover
  from wsEventHandler_sequence_test [of ?posted "?ue 5" ?S exampleJson]
  have "wsEventHandler ?S exampleJson ?posted (?ue 5) = handlePostEvent ?S exampleJson ?posted (?ue 6)"
    by (simp add: hello seq types advance event_types)
  moreover
  from wsEventHandler_sequence_test [of ?posted "?ue 5" ?S exampleJson] collaborators
  have "fst (wsEventHandler ?S exampleJson ?posted (?ue 5)) \<noteq> Return (Some errSeqMismatch)"
    unfolding hello seq by blast
  moreover
  from wsEventHandler_sequence_test [of "?typing 8" "?ue 6" emptyStore exampleJson]
  have "wsEventHandler emptyStore exampleJson (?typing 8) (?ue 6)
      = (Return (Some errSeqMismatch), [], ?ue 6)"
    by (simp add: hello seq)
  ultimately show ?thesis by simp
qed

text \<open>
  The claim as stated fails on a hello event: with \<open>a\<close> recorded and \<open>wsServerSeq = 5\<close>,
  a hello event for connection \<open>b\<close> with sequence number 0, which differs from 5, is
  accepted, and both fields of the tracker change.
\<close>

theorem wsEventHandler_hello_counterexample:
  "Sequence (exampleEvent ''hello'' 0 ''connection_id'' ''b'') \<noteq> wsServerSeq (exampleEntity ''a'' 5)
   \<and> wsEventHandler emptyStore exampleJson
         (exampleEvent ''hello'' 0 ''connection_id'' ''b'') (exampleEntity ''a'' 5)
       = (Return None, [], (exampleEntity ''a'' 5)\<lparr>wsConnID := ''b'', wsServerSeq := 1\<rparr>)"
  by (simp add: exampleEntity_def exampleEvent_def event_types wsEventHandler_def
      wsEventHandler_hello_def)

text \<open>
  Claim C3 (handshake): for every hello event carrying a connection identifier \<open>c\<close>, the
  first statement of the handler resets \<open>wsServerSeq\<close> to 0 if the recorded identifier is
  non-empty and differs from \<open>c\<close>, leaves \<open>wsServerSeq\<close> as it is if the recorded
  identifier equals \<open>c\<close>, and in all cases records \<open>c\<close>, which is also the identifier
  recorded when the whole handler returns.
\<close>

theorem wsEventHandler_hello_handshake:
  assumes "EventType ev = WebsocketEventHello"
    and "Data ev ''connection_id'' = Some (DString c)"
  shows "(wsConnID ue \<noteq> [] \<and> wsConnID ue \<noteq> c \<longrightarrow> wsServerSeq (wsEventHandler_hello ev ue) = 0)
    \<and> (wsConnID ue = c \<longrightarrow> wsServerSeq (wsEventHandler_hello ev ue) = wsServerSeq ue)
    \<and> wsConnID (wsEventHandler_hello ev ue) = c
    \<and> wsConnID (snd (snd (wsEventHandler S J ev ue))) = c"
proof -
  have hello: "wsEventHandler_hello ev ue =
      (if wsConnID ue \<noteq> [] \<and> wsConnID ue \<noteq> c
       then ue\<lparr>wsServerSeq := 0, wsConnID := c\<rparr> else ue\<lparr>wsConnID := c\<rparr>)"
    using assms by (simp add: wsEventHandler_hello_def Let_def)
  have conn: "wsConnID (wsEventHandler_hello ev ue) = c"
    by (simp add: hello)
  have "wsConnID (snd (snd (wsEventHandler S J ev ue))) = wsConnID (wsEventHandler_hello ev ue)"
  proof (cases "Sequence ev = wsServerSeq (wsEventHandler_hello ev ue)")
    case True
    show ?thesis by (subst wsEventHandler_accept [OF True]) simp
  next
    case False
    then show ?thesis by (simp add: wsEventHandler_reject)
  qed
  with conn show ?thesis by (simp add: hello)
qed

theorem wsEventHandler_hello_handshake_witness:
  "EventType (exampleEvent ''hello'' 0 ''connection_id'' ''b'') = WebsocketEventHello
   \<and> Data (exampleEvent ''hello'' 0 ''connection_id'' ''b'') ''connection_id''
       = Some (DString ''b'')
   \<and> wsConnID (exampleEntity ''a'' 5) \<noteq> [] \<and> wsConnID (exampleEntity ''a'' 5) \<noteq> ''b''
   \<and> wsServerSeq (wsEventHandler_hello (exampleEvent ''hello'' 0 ''connection_id'' ''b'')
         (exampleEntity ''a'' 5)) = 0
   \<and> wsConnID (wsEventHandler_hello (exampleEvent ''hello'' 0 ''connection_id'' ''b'')
         (exampleEntity ''a'' 5)) = ''b''
   \<and> wsServerSeq (wsEventHandler_hello (exampleEvent ''hello'' 0 ''connection_id'' ''a'')
         (exampleEntity ''a'' 5)) = 5
   \<and> wsConnID (wsEventHandler_hello (exampleEvent ''hello'' 0 ''connection_id'' ''a'')
         (exampleEntity ''a'' 5)) = ''a''"
proof -
  let ?b = "exampleEvent ''hello'' 0 ''connection_id'' ''b''"
  let ?a = "exampleEvent ''hello'' 0 ''connection_id'' ''a''"
  let ?ue = "exampleEntity ''a'' 5 :: store_call list UserEntity"
  have t: "EventType ?b = WebsocketEventHello" "EventType ?a = WebsocketEventHello"
    by (simp_all add: exampleEvent_def WebsocketEventHello_def)
  have d: "Data ?b ''connection_id'' = Some (DString ''b'')"
    "Data ?a ''connection_id'' = Some (DString ''a'')"
    by (simp_all add: exampleEvent_def)
  from wsEventHandler_hello_handshake [OF t(1) d(1), of ?ue emptyStore exampleJson]
    wsEventHandler_hello_handshake [OF t(2) d(2), of ?ue emptyStore exampleJson] t d
  show ?thesis
    by (simp add: exampleEntity_def)
qed

section \<open>Properties of the session loop\<close>

lemma listen_step_Start:
  "pc st = Start \<Longrightarrow> listen_step S J stim st = Some (acts, st') \<Longrightarrow>
   \<exists>rest. acts = CallNewClient4 (wsConnID (entity st)) (wsServerSeq (entity st)) # rest"
  by (auto simp: listen_step_def reconnect_def Let_def split: stimulus.splits)

text \<open>
  Claim C1 (sequence mismatch in the loop), as the source has it: when the loop, with a
  client open, receives an event whose sequence number mismatches the expected one, it
  closes the client, decrements the count of connections and jumps to the label
  \<open>start\<close>. The failure count is not incremented and no timer is armed: whatever the
  loop does next begins with the call of \<open>NewClient4\<close>, with the tracker's identifier and
  sequence number.
\<close>

theorem listen_sequence_mismatch:
  assumes "pc st = Active"
    and "Sequence ev \<noteq> wsServerSeq (wsEventHandler_hello ev (entity st))"
  shows "listen_step S J (RecvEvent ev) st
           = Some ([ClientClose, DecWebSocketConnections],
                   st\<lparr>entity := wsEventHandler_hello ev (entity st), pc := Start\<rparr>)
    \<and> connectionFailCount (st\<lparr>entity := wsEventHandler_hello ev (entity st), pc := Start\<rparr>)
        = connectionFailCount st
    \<and> (\<forall>stim acts st'.
          listen_step S J stim (st\<lparr>entity := wsEventHandler_hello ev (entity st), pc := Start\<rparr>)
            = Some (acts, st') \<longrightarrow>
          (\<exists>rest. acts = CallNewClient4 (wsConnID (wsEventHandler_hello ev (entity st)))
                            (wsServerSeq (wsEventHandler_hello ev (entity st))) # rest))"
proof (intro conjI allI impI)
  show "listen_step S J (RecvEvent ev) st
           = Some ([ClientClose, DecWebSocketConnections],
                   st\<lparr>entity := wsEventHandler_hello ev (entity st), pc := Start\<rparr>)"
    using assms by (simp add: listen_step_def wsEventHandler_reject)
next
  show "connectionFailCount (st\<lparr>entity := wsEventHandler_hello ev (entity st), pc := Start\<rparr>)
        = connectionFailCount st"
    by simp
next
  fix stim acts st'
  assume "listen_step S J stim (st\<lparr>entity := wsEventHandler_hello ev (entity st), pc := Start\<rparr>)
            = Some (acts, st')"
  from listen_step_Start [OF _ this]
  show "\<exists>rest. acts = CallNewClient4 (wsConnID (wsEventHandler_hello ev (entity st)))
                            (wsServerSeq (wsEventHandler_hello ev (entity st))) # rest"
    by simp
qed

theorem listen_sequence_mismatch_witness:
  "pc \<lparr>entity = exampleEntity ''a'' 6, connectionFailCount = 3, pc = Active\<rparr> = Active
   \<and> Sequence (exampleEvent ''typing'' 8 ''channel_id'' ''c1'') \<noteq> wsServerSeq (exampleEntity ''a'' 6)
   \<and> listen_step emptyStore exampleJson (RecvEvent (exampleEvent ''typing'' 8 ''channel_id'' ''c1''))
        \<lparr>entity = exampleEntity ''a'' 6, connectionFailCount = 3, pc = Active\<rparr>
       = Some ([ClientClose, DecWebSocketConnections],
               \<lparr>entity = exampleEntity ''a'' 6, connectionFailCount = 3, pc = Start\<rparr>)
   \<and> listen_step emptyStore exampleJson NewClient4_ok
        \<lparr>entity = exampleEntity ''a'' 6, connectionFailCount = 3, pc = Start\<rparr>
       = Some ([CallNewClient4 ''a'' 6, IncWebSocketConnections],
               \<lparr>entity = exampleEntity ''a'' 6, connectionFailCount = 3, pc = Active\<rparr>)"
proof -
  let ?st = "\<lparr>entity = exampleEntity ''a'' 6, connectionFailCount = 3, pc = Active\<rparr>
               :: store_call list listen_state"
  let ?ev = "exampleEvent ''typing'' 8 ''channel_id'' ''c1''"
  have active: "pc ?st = Active" by simp
  have hello: "wsEventHandler_hello ?ev (entity ?st) = exampleEntity ''a'' 6"
    by (simp add: wsEventHandler_hello_def exampleEvent_def event_types)
  have mismatch: "Sequence ?ev \<noteq> wsServerSeq (wsEventHandler_hello ?ev (entity ?st))"
    unfolding hello by (simp add: exampleEntity_def exampleEvent_def)
  have "listen_step emptyStore exampleJson NewClient4_ok (?st\<lparr>pc := Start\<rparr>)
       = Some ([CallNewClient4 ''a'' 6, IncWebSocketConnections], ?st)"
    by (simp add: listen_step_def exampleEntity_def)
  with listen_sequence_mismatch [OF active mismatch, of emptyStore exampleJson] hello
  show ?thesis by (simp add: exampleEntity_def exampleEvent_def)
qed

text \<open>
  The claim as stated, that the mismatch increments the failure count and waits per the
  backoff policy, fails: with a failure count of 0 the step ends at \<open>start\<close> with the
  count still 0 and without \<open>time.After\<close>.
\<close>

theorem listen_sequence_mismatch_counterexample:
  "listen_step emptyStore exampleJson (RecvEvent (exampleEvent ''typing'' 8 ''channel_id'' ''c1''))
        \<lparr>entity = exampleEntity ''a'' 6, connectionFailCount = 0, pc = Active\<rparr>
       = Some ([ClientClose, DecWebSocketConnections],
               \<lparr>entity = exampleEntity ''a'' 6, connectionFailCount = 0, pc = Start\<rparr>)
   \<and> TimeAfter (getWaitTime 1) \<notin> set [ClientClose, DecWebSocketConnections]
   \<and> connectionFailCount \<lparr>entity = exampleEntity ''a'' 6, connectionFailCount = 0, pc = Start\<rparr>
       \<noteq> (0::int64) + 1"
  by (simp add: listen_step_def wsEventHandler_def wsEventHandler_hello_def
      exampleEntity_def exampleEvent_def event_types)

text \<open>
  Claim C4 (republishing), as the source has it: with a client open, an event whose
  handling returns an error other than \<open>errSeqMismatch\<close> has the error sent to the error
  channel and is then sent to \<open>wsEventChan\<close> all the same; an event handled without
  error is sent to \<open>wsEventChan\<close> and nothing goes to the error channel; in both cases
  the loop stays at its inner \<open>select\<close>. Only a sequence mismatch (or a panic) keeps the
  event from \<open>wsEventChan\<close>.
\<close>

theorem listen_republish:
  assumes "pc st = Active"
    and "wsEventHandler S J ev (entity st) = (res, calls, ue')"
  shows "(\<forall>err. res = Return (Some err) \<and> err \<noteq> errSeqMismatch \<longrightarrow>
            listen_step S J (RecvEvent ev) st
              = Some (map StoreCall calls
                        @ [ErrChanSend (ErrWrap ''userentity: error in wsEventHandler'' err),
                           WsEventChanSend ev],
                      st\<lparr>entity := ue'\<rparr>))
    \<and> (res = Return None \<longrightarrow>
            listen_step S J (RecvEvent ev) st
              = Some (map StoreCall calls @ [WsEventChanSend ev], st\<lparr>entity := ue'\<rparr>))
    \<and> (res = Return (Some errSeqMismatch) \<or> res = Panic \<longrightarrow>
          (\<forall>acts st'. listen_step S J (RecvEvent ev) st = Some (acts, st') \<longrightarrow>
             WsEventChanSend ev \<notin> set acts))
    \<and> pc (st\<lparr>entity := ue'\<rparr>) = Active"
  using assms by (auto simp: listen_step_def)

theorem listen_republish_witness:
  "listen_step emptyStore exampleJson (RecvEvent (exampleEvent ''posted'' 5 ''channel_id'' ''c1''))
        \<lparr>entity = exampleEntity ''a'' 5, connectionFailCount = 0, pc = Active\<rparr>
     = Some ([ErrChanSend (ErrWrap ''userentity: error in wsEventHandler''
                            (ErrNew ''post data is missing'')),
              WsEventChanSend (exampleEvent ''posted'' 5 ''channel_id'' ''c1'')],
             \<lparr>entity = exampleEntity ''a'' 6, connectionFailCount = 0, pc = Active\<rparr>)
   \<and> listen_step emptyStore exampleJson (RecvEvent (exampleEvent ''typing'' 5 ''channel_id'' ''c1''))
        \<lparr>entity = exampleEntity ''a'' 5, connectionFailCount = 0, pc = Active\<rparr>
     = Some ([WsEventChanSend (exampleEvent ''typing'' 5 ''channel_id'' ''c1'')],
             \<lparr>entity = exampleEntity ''a'' 6, connectionFailCount = 0, pc = Active\<rparr>)
   \<and> WsEventChanSend (exampleEvent ''typing'' 8 ''channel_id'' ''c1'')
        \<notin> set (fst (the (listen_step emptyStore exampleJson
                  (RecvEvent (exampleEvent ''typing'' 8 ''channel_id'' ''c1''))
                  \<lparr>entity = exampleEntity ''a'' 5, connectionFailCount = 0, pc = Active\<rparr>)))"
proof -
  let ?st = "\<lparr>entity = exampleEntity ''a'' 5, connectionFailCount = 0, pc = Active\<rparr>
               :: store_call list listen_state"
  let ?late = "exampleEvent ''typing'' 8 ''channel_id'' ''c1''"
  have posted: "wsEventHandler emptyStore exampleJson (exampleEvent ''posted'' 5 ''channel_id'' ''c1'')
      (entity ?st) = (Return (Some (ErrNew ''post data is missing'')), [], exampleEntity ''a'' 6)"
    by (simp add: wsEventHandler_def wsEventHandler_hello_def handlePostEvent_def
        exampleEntity_def exampleEvent_def event_types)
  have typing: "wsEventHandler emptyStore exampleJson (exampleEvent ''typing'' 5 ''channel_id'' ''c1'')
      (entity ?st) = (Return None, [], exampleEntity ''a'' 6)"
    by (simp add: wsEventHandler_def wsEventHandler_hello_def
        exampleEntity_def exampleEvent_def event_types)
  have late: "wsEventHandler emptyStore exampleJson ?late (entity ?st)
      = (Return (Some errSeqMismatch), [], exampleEntity ''a'' 5)"
    by (simp add: wsEventHandler_def wsEventHandler_hello_def
        exampleEntity_def exampleEvent_def event_types)
  have pc: "pc ?st = Active" by simp
  have step: "listen_step emptyStore exampleJson (RecvEvent ?late) ?st
      = Some ([ClientClose, DecWebSocketConnections], ?st\<lparr>pc := Start\<rparr>)"
    by (simp add: listen_step_def wsEventHandler_def wsEventHandler_hello_def
        exampleEntity_def exampleEvent_def event_types)
  with listen_republish [OF pc late]
  have "WsEventChanSend ?late \<notin> set [ClientClose, DecWebSocketConnections]"
    by blast
  with step listen_republish [OF pc posted] listen_republish [OF pc typing]
  show ?thesis by simp
qed

text \<open>
  The claim as stated, that an event whose dispatch fails is not republished, fails on a
  \<open>posted\<close> event without \<open>post\<close> data: the handler returns an error, and the event is
  sent to \<open>wsEventChan\<close> after the error.
\<close>

theorem listen_republish_counterexample:
  "wsEventHandler emptyStore exampleJson (exampleEvent ''posted'' 5 ''channel_id'' ''c1'')
      (exampleEntity ''a'' 5)
     = (Return (Some (ErrNew ''post data is missing'')), [], exampleEntity ''a'' 6)
   \<and> listen_step emptyStore exampleJson (RecvEvent (exampleEvent ''posted'' 5 ''channel_id'' ''c1''))
        \<lparr>entity = exampleEntity ''a'' 5, connectionFailCount = 0, pc = Active\<rparr>
     = Some ([ErrChanSend (ErrWrap ''userentity: error in wsEventHandler''
                            (ErrNew ''post data is missing'')),
              WsEventChanSend (exampleEvent ''posted'' 5 ''channel_id'' ''c1'')],
             \<lparr>entity = exampleEntity ''a'' 6, connectionFailCount = 0, pc = Active\<rparr>)"
  by (simp add: listen_step_def wsEventHandler_def wsEventHandler_hello_def handlePostEvent_def
      exampleEntity_def exampleEvent_def event_types)

section \<open>Properties of the event dispatch\<close>

text \<open>
  Claim C7 (message create and edit): for a \<open>posted\<close> or \<open>post_edited\<close> event whose payload
  decodes to a post \<open>p\<close>. If the store has an active channel and it is the post's, the
  handler calls \<open>SetPost p\<close> once, after the lookup, and returns what \<open>SetPost\<close> returns.
  If another channel is active, the lookup is the only store call, the store is unchanged
  and the handler returns nil. If the lookup reports \<open>ErrChannelNotFound\<close>, the same. Any
  other error of the lookup is returned, wrapped.
\<close>

theorem handlePostEvent_create_edit:
  assumes "EventType ev = WebsocketEventPosted \<or> EventType ev = WebsocketEventPostEdited"
    and "Data ev ''post'' = Some (DString d)"
    and "UnmarshalPost J d = Inr (Some p)"
  shows "(\<forall>ch. CurrentChannel S (store ue) = (Some ch, None) \<and> channel_Id ch = post_ChannelId p \<longrightarrow>
            handlePostEvent S J ev ue
              = (Return (fst (SetPost S (store ue) p)), [CallCurrentChannel, CallSetPost p],
                 ue\<lparr>store := snd (SetPost S (store ue) p)\<rparr>))
    \<and> (\<forall>ch. CurrentChannel S (store ue) = (Some ch, None) \<and> channel_Id ch \<noteq> post_ChannelId p \<longrightarrow>
            handlePostEvent S J ev ue = (Return None, [CallCurrentChannel], ue))
    \<and> (\<forall>cc e. CurrentChannel S (store ue) = (cc, Some e) \<and> errors_Is e ErrChannelNotFound \<longrightarrow>
            handlePostEvent S J ev ue = (Return None, [CallCurrentChannel], ue))
    \<and> (\<forall>cc e. CurrentChannel S (store ue) = (cc, Some e) \<and> \<not> errors_Is e ErrChannelNotFound \<longrightarrow>
            handlePostEvent S J ev ue
              = (Return (Some (ErrWrap ''failed to get current channel from store'' e)),
                 [CallCurrentChannel], ue))"
  using assms by (auto simp: handlePostEvent_def split: prod.splits)

theorem handlePostEvent_create_edit_witness:
  "handlePostEvent (exampleStore (Some \<lparr>channel_Id = ''c1''\<rparr>, None) (None, None) (False, None))
      exampleJson (exampleEvent ''post_edited'' 5 ''post'' ''c1'') (exampleEntity ''a'' 6)
     = (Return None,
        [CallCurrentChannel,
         CallSetPost \<lparr>post_Id = ''p1'', post_ChannelId = ''c1'', post_Message = ''hi''\<rparr>],
        (exampleEntity ''a'' 6)
          \<lparr>store := [CallSetPost \<lparr>post_Id = ''p1'', post_ChannelId = ''c1'',
                                  post_Message = ''hi''\<rparr>]\<rparr>)
   \<and> handlePostEvent (exampleStore (Some \<lparr>channel_Id = ''c1''\<rparr>, None) (None, None) (False, None))
      exampleJson (exampleEvent ''post_edited'' 5 ''post'' ''c2'') (exampleEntity ''a'' 6)
     = (Return None, [CallCurrentChannel], exampleEntity ''a'' 6)
   \<and> handlePostEvent emptyStore exampleJson (exampleEvent ''posted'' 5 ''post'' ''c1'')
      (exampleEntity ''a'' 6)
     = (Return None, [CallCurrentChannel], exampleEntity ''a'' 6)
   \<and> handlePostEvent (exampleStore (None, Some (ErrNew ''store is closed'')) (None, None) (False, None))
      exampleJson (exampleEvent ''posted'' 5 ''post'' ''c1'') (exampleEntity ''a'' 6)
     = (Return (Some (ErrWrap ''failed to get current channel from store''
                        (ErrNew ''store is closed''))),
        [CallCurrentChannel], exampleEntity ''a'' 6)"
proof -
  let ?S1 = "exampleStore (Some \<lparr>channel_Id = ''c1''\<rparr>, None) (None, None) (False, None)"
  let ?S4 = "exampleStore (None, Some (ErrNew ''store is closed'')) (None, None) (False, None)"
  let ?ue = "exampleEntity ''a'' 6 :: store_call list UserEntity"
  have t: "EventType (exampleEvent ''post_edited'' 5 ''post'' c) = WebsocketEventPosted
         \<or> EventType (exampleEvent ''post_edited'' 5 ''post'' c) = WebsocketEventPostEdited"
    "EventType (exampleEvent ''posted'' 5 ''post'' c) = WebsocketEventPosted
         \<or> EventType (exampleEvent ''posted'' 5 ''post'' c) = WebsocketEventPostEdited" for c
    by (simp_all add: exampleEvent_def event_types)
  have d: "Data (exampleEvent k 5 ''post'' c) ''post'' = Some (DString c)" for k c
    by (simp add: exampleEvent_def)
  have u: "UnmarshalPost exampleJson ''c1''
             = Inr (Some \<lparr>post_Id = ''p1'', post_ChannelId = ''c1'', post_Message = ''hi''\<rparr>)"
    "UnmarshalPost exampleJson ''c2''
             = Inr (Some \<lparr>post_Id = ''p1'', post_ChannelId = ''c2'', post_Message = ''hi''\<rparr>)"
    by (simp_all add: exampleJson_def)
  from handlePostEvent_create_edit [OF t(1) d u(1), of ?S1 ?ue]
    handlePostEvent_create_edit [OF t(1) d u(2), of ?S1 ?ue]
    handlePostEvent_create_edit [OF t(2) d u(1), of emptyStore ?ue]
    handlePostEvent_create_edit [OF t(2) d u(1), of ?S4 ?ue]
  show ?thesis
    by (simp add: exampleStore_def emptyStore_def exampleEntity_def)
qed

text \<open>
  Claim C8 (reaction removal): for a \<open>reaction_removed\<close> event whose payload decodes to a
  reaction \<open>r\<close>, with an active channel and the post of \<open>r\<close> known and in that channel.
  If \<open>DeleteReaction\<close> reports that the reaction was not found, the handler returns the
  error \<open>could not find reaction in the store\<close>; if it reports the reaction found and
  deleted, the handler returns nil. In both cases \<open>DeleteReaction r\<close> is the only
  mutation requested.
\<close>

theorem handleReactionEvent_remove:
  assumes "EventType ev = WebsocketEventReactionRemoved"
    and "Data ev ''reaction'' = Some (DString d)"
    and "UnmarshalReaction J d = Inr (Some r)"
    and "CurrentChannel S (store ue) = (Some ch, None)"
    and "Post S (store ue) (reaction_PostId r) = (Some p, None)"
    and "post_ChannelId p = channel_Id ch"
  shows "(\<forall>s'. DeleteReaction S (store ue) r = ((False, None), s') \<longrightarrow>
            handleReactionEvent S J ev ue
              = (Return (Some (ErrNew ''could not find reaction in the store'')),
                 [CallCurrentChannel, CallPost (reaction_PostId r), CallDeleteReaction r],
                 ue\<lparr>store := s'\<rparr>))
    \<and> (\<forall>s'. DeleteReaction S (store ue) r = ((True, None), s') \<longrightarrow>
            handleReactionEvent S J ev ue
              = (Return None,
                 [CallCurrentChannel, CallPost (reaction_PostId r), CallDeleteReaction r],
                 ue\<lparr>store := s'\<rparr>))"
  using assms by (simp add: handleReactionEvent_def event_types)

theorem handleReactionEvent_remove_witness:
  "handleReactionEvent
      (exampleStore (Some \<lparr>channel_Id = ''c1''\<rparr>, None)
         (Some \<lparr>post_Id = ''p1'', post_ChannelId = ''c1'', post_Message = ''hi''\<rparr>, None)
         (False, None))
      exampleJson (exampleEvent ''reaction_removed'' 5 ''reaction'' ''p1'') (exampleEntity ''a'' 6)
     = (Return (Some (ErrNew ''could not find reaction in the store'')),
        [CallCurrentChannel, CallPost ''p1'',
         CallDeleteReaction \<lparr>reaction_UserId = ''u1'', reaction_PostId = ''p1'',
                               reaction_EmojiName = ''smile''\<rparr>],
        (exampleEntity ''a'' 6)
          \<lparr>store := [CallDeleteReaction \<lparr>reaction_UserId = ''u1'', reaction_PostId = ''p1'',
                                         reaction_EmojiName = ''smile''\<rparr>]\<rparr>)
   \<and> handleReactionEvent
      (exampleStore (Some \<lparr>channel_Id = ''c1''\<rparr>, None)
         (Some \<lparr>post_Id = ''p1'', post_ChannelId = ''c1'', post_Message = ''hi''\<rparr>, None)
         (True, None))
      exampleJson (exampleEvent ''reaction_removed'' 5 ''reaction'' ''p1'') (exampleEntity ''a'' 6)
     = (Return None,
        [CallCurrentChannel, CallPost ''p1'',
         CallDeleteReaction \<lparr>reaction_UserId = ''u1'', reaction_PostId = ''p1'',
                               reaction_EmojiName = ''smile''\<rparr>],
        (exampleEntity ''a'' 6)
          \<lparr>store := [CallDeleteReaction \<lparr>reaction_UserId = ''u1'', reaction_PostId = ''p1'',
                                         reaction_EmojiName = ''smile''\<rparr>]\<rparr>)"
proof -
  let ?ch = "\<lparr>channel_Id = ''c1''\<rparr>"
  let ?p = "\<lparr>post_Id = ''p1'', post_ChannelId = ''c1'', post_Message = ''hi''\<rparr>"
  let ?r = "\<lparr>reaction_UserId = ''u1'', reaction_PostId = ''p1'', reaction_EmojiName = ''smile''\<rparr>"
  let ?S = "\<lambda>found. exampleStore (Some ?ch, None) (Some ?p, None) (found, None)"
  let ?ev = "exampleEvent ''reaction_removed'' 5 ''reaction'' ''p1''"
  let ?ue = "exampleEntity ''a'' 6 :: store_call list UserEntity"
  have t: "EventType ?ev = WebsocketEventReactionRemoved"
    by (simp add: exampleEvent_def event_types)
  have d: "Data ?ev ''reaction'' = Some (DString ''p1'')"
    by (simp add: exampleEvent_def)
  have u: "UnmarshalReaction exampleJson ''p1'' = Inr (Some ?r)"
    by (simp add: exampleJson_def)
  have c: "CurrentChannel (?S found) (store ?ue) = (Some ?ch, None)" for found
    by (simp add: exampleStore_def)
  have p: "Post (?S found) (store ?ue) (reaction_PostId ?r) = (Some ?p, None)" for found
    by (simp add: exampleStore_def)
  have i: "post_ChannelId ?p = channel_Id ?ch" by simp
  from handleReactionEvent_remove [OF t d u c p i, of False]
    handleReactionEvent_remove [OF t d u c p i, of True]
  show ?thesis
    by (simp add: exampleStore_def exampleEntity_def)
qed

text \<open>
  Claim C10 (order of the checks on the post lookup): for a reaction event that reaches
  the post lookup. If the lookup returns a nil post together with an error that is not
  \<open>ErrPostNotFound\<close> (or with no error), the handler dereferences the nil post in
  \<open>post.ChannelId\<close> and panics before the test \<open>err != nil\<close>. The handler returns an
  error right after the lookup only from the branch that wraps the lookup's error, and
  only when the lookup returned that error together with a post of the active channel.
\<close>

theorem handleReactionEvent_nil_post:
  assumes "Data ev ''reaction'' = Some (DString d)"
    and "UnmarshalReaction J d = Inr (Some r)"
    and "CurrentChannel S (store ue) = (Some ch, cerr)"
    and "otherThan ErrChannelNotFound cerr = None"
  shows "(\<forall>perr. Post S (store ue) (reaction_PostId r) = (None, perr)
              \<and> \<not> errors_Is_opt perr ErrPostNotFound \<longrightarrow>
            handleReactionEvent S J ev ue
              = (Panic, [CallCurrentChannel, CallPost (reaction_PostId r)], ue))
    \<and> (\<forall>e'. handleReactionEvent S J ev ue
              = (Return (Some e'), [CallCurrentChannel, CallPost (reaction_PostId r)], ue) \<longrightarrow>
          (\<exists>p e. Post S (store ue) (reaction_PostId r) = (Some p, Some e)
                 \<and> \<not> errors_Is e ErrPostNotFound
                 \<and> post_ChannelId p = channel_Id ch
                 \<and> e' = ErrWrap ''failed to get post from store'' e))"
  using assms
  by (auto simp: handleReactionEvent_def Let_def split: prod.splits option.splits if_splits)

theorem handleReactionEvent_nil_post_witness:
  "handleReactionEvent
      (exampleStore (Some \<lparr>channel_Id = ''c1''\<rparr>, None) (None, Some (ErrNew ''store is closed''))
         (False, None))
      exampleJson (exampleEvent ''reaction_added'' 5 ''reaction'' ''p1'') (exampleEntity ''a'' 6)
     = (Panic, [CallCurrentChannel, CallPost ''p1''], exampleEntity ''a'' 6)
   \<and> handleReactionEvent
      (exampleStore (Some \<lparr>channel_Id = ''c1''\<rparr>, None)
         (Some \<lparr>post_Id = ''p1'', post_ChannelId = ''c1'', post_Message = ''hi''\<rparr>,
          Some (ErrNew ''store is closed''))
         (False, None))
      exampleJson (exampleEvent ''reaction_added'' 5 ''reaction'' ''p1'') (exampleEntity ''a'' 6)
     = (Return (Some (ErrWrap ''failed to get post from store'' (ErrNew ''store is closed''))),
        [CallCurrentChannel, CallPost ''p1''], exampleEntity ''a'' 6)
   \<and> (\<exists>p e. (Some \<lparr>post_Id = ''p1'', post_ChannelId = ''c1'', post_Message = ''hi''\<rparr>,
               Some (ErrNew ''store is closed'')) = (Some p, Some e)
             \<and> post_ChannelId p = ''c1'')"
proof -
  let ?ch = "\<lparr>channel_Id = ''c1''\<rparr>"
  let ?p = "\<lparr>post_Id = ''p1'', post_ChannelId = ''c1'', post_Message = ''hi''\<rparr>"
  let ?r = "\<lparr>reaction_UserId = ''u1'', reaction_PostId = ''p1'', reaction_EmojiName = ''smile''\<rparr>"
  let ?S = "\<lambda>post. exampleStore (Some ?ch, None) (post, Some (ErrNew ''store is closed''))
              (False, None)"
  let ?ev = "exampleEvent ''reaction_added'' 5 ''reaction'' ''p1''"
  let ?ue = "exampleEntity ''a'' 6 :: store_call list UserEntity"
  have d: "Data ?ev ''reaction'' = Some (DString ''p1'')"
    by (simp add: exampleEvent_def)
  have u: "UnmarshalReaction exampleJson ''p1'' = Inr (Some ?r)"
    by (simp add: exampleJson_def)
  have c: "CurrentChannel (?S post) (store ?ue) = (Some ?ch, None)" for post
    by (simp add: exampleStore_def)
  have n: "otherThan ErrChannelNotFound None = None" by simp
  have propagated: "handleReactionEvent (?S (Some ?p)) exampleJson ?ev ?ue
     = (Return (Some (ErrWrap ''failed to get post from store'' (ErrNew ''store is closed''))),
        [CallCurrentChannel, CallPost (reaction_PostId ?r)], ?ue)"
    by (simp add: handleReactionEvent_def exampleStore_def exampleJson_def exampleEvent_def)
  from handleReactionEvent_nil_post [OF d u c n, of None]
    handleReactionEvent_nil_post [OF d u c n, of "Some ?p"] propagated
  show ?thesis
    by (simp add: exampleStore_def)
qed

section \<open>Properties of the facade\<close>





end
